theory Spec2Isabelle
  imports Complex_Main "HOL-Library.Sublist"
begin

section \<open>Strings and numbers of the host language\<close>

text \<open>
  Strings are modelled as \<^typ>\<open>string\<close>, one \<^typ>\<open>char\<close> per code unit; only the ASCII
  range is modelled. \<open>String.prototype.toLowerCase\<close> maps the letters A to Z to a to z
  and leaves every other ASCII character alone; \<open>String.prototype.trim\<close> removes white
  space and line terminators (TAB, LF, VT, FF, CR, SPACE) from both ends.
\<close>

definition toLowerChar :: "char \<Rightarrow> char" where
  "toLowerChar c =
     (case map_of (zip ''ABCDEFGHIJKLMNOPQRSTUVWXYZ'' ''abcdefghijklmnopqrstuvwxyz'') c of
        Some l \<Rightarrow> l
      | None \<Rightarrow> c)"

definition toLowerCase :: "string \<Rightarrow> string" where
  "toLowerCase s = map toLowerChar s"

definition isWhiteSpace :: "char \<Rightarrow> bool" where
  "isWhiteSpace c = (c \<in> set [CHR 0x09, CHR 0x0A, CHR 0x0B, CHR 0x0C, CHR 0x0D, CHR 0x20])"

definition trim :: "string \<Rightarrow> string" where
  "trim s = rev (dropWhile isWhiteSpace (rev (dropWhile isWhiteSpace s)))"

text \<open>
  A Number as far as the form can tell numbers apart. \<open>Num q\<close> is the Number whose
  mathematical value, before it is rounded to a binary64, is the rational \<open>q\<close>.
\<close>

datatype js_number = NaN | PosInfinity | NegInfinity | Num rat

definition isDigit :: "char \<Rightarrow> bool" where
  "isDigit c = (c \<in> set ''0123456789'')"

definition digitValue :: "char \<Rightarrow> nat" where
  "digitValue c =
     (case map_of (zip ''0123456789'' [0, 1, 2, 3, 4, 5, 6, 7, 8, 9]) c of
        Some d \<Rightarrow> d
      | None \<Rightarrow> 0)"

definition digitsValue :: "string \<Rightarrow> nat" where
  "digitsValue ds = foldl (\<lambda>a c. 10 * a + digitValue c) 0 ds"

definition scale10 :: "nat \<Rightarrow> int \<Rightarrow> rat" where
  "scale10 m e = (if 0 \<le> e then of_nat m * 10 ^ nat e else of_nat m / 10 ^ nat (- e))"

text \<open>
  The value of an optional \<open>ExponentPart\<close> at the head of \<open>s\<close>: \<open>e\<close> or \<open>E\<close>, an
  optional sign and at least one digit. Without a digit there is no exponent part and the
  literal ends before the \<open>e\<close>.
\<close>

definition exponentPart :: "string \<Rightarrow> int" where
  "exponentPart s =
     (case s of
        [] \<Rightarrow> 0
      | c # r \<Rightarrow>
          if c = CHR ''e'' \<or> c = CHR ''E'' then
            (case r of
               [] \<Rightarrow> 0
             | d # r' \<Rightarrow>
                 if d = CHR ''+'' then int (digitsValue (takeWhile isDigit r'))
                 else if d = CHR ''-'' then - int (digitsValue (takeWhile isDigit r'))
                 else int (digitsValue (takeWhile isDigit r)))
          else 0)"

text \<open>
  The longest prefix of \<open>s\<close> that is a \<open>StrUnsignedDecimalLiteral\<close> (\<open>Infinity\<close>,
  digits with an optional fraction, or a fraction alone, each with an optional exponent),
  as a number; \<open>NaN\<close> when no prefix is one.
\<close>

definition strUnsignedDecimalLiteral :: "string \<Rightarrow> js_number" where
  "strUnsignedDecimalLiteral s =
     (if take 8 s = ''Infinity'' then PosInfinity
      else
        (let ip = takeWhile isDigit s; r = dropWhile isDigit s in
         case r of
           [] \<Rightarrow> if ip = [] then NaN else Num (scale10 (digitsValue ip) 0)
         | c # r1 \<Rightarrow>
             if c = CHR ''.'' then
               (let fp = takeWhile isDigit r1; r2 = dropWhile isDigit r1 in
                if ip = [] \<and> fp = [] then NaN
                else Num (scale10 (digitsValue (ip @ fp)) (exponentPart r2 - int (length fp))))
             else if ip = [] then NaN
             else Num (scale10 (digitsValue ip) (exponentPart r))))"

definition negate :: "js_number \<Rightarrow> js_number" where
  "negate x =
     (case x of
        NaN \<Rightarrow> NaN
      | PosInfinity \<Rightarrow> NegInfinity
      | NegInfinity \<Rightarrow> PosInfinity
      | Num q \<Rightarrow> Num (- q))"

text \<open>
  The global \<open>parseFloat\<close>: leading white space is skipped, then the longest prefix that
  is a \<open>StrDecimalLiteral\<close> (an optional sign and an unsigned literal) is read; whatever
  follows it is ignored, and a string with no such prefix gives \<open>NaN\<close>.
\<close>

definition parseFloat :: "string \<Rightarrow> js_number" where
  "parseFloat s =
     (case dropWhile isWhiteSpace s of
        [] \<Rightarrow> NaN
      | c # r \<Rightarrow>
          if c = CHR ''-'' then negate (strUnsignedDecimalLiteral r)
          else if c = CHR ''+'' then strUnsignedDecimalLiteral r
          else strUnsignedDecimalLiteral (c # r))"

text \<open>
  What reading a property of the quantity object gives. \<open>sizeQuantities\<close> is a plain
  object, \<open>{}\<close> at first; its own properties are the integers that the quantity inputs
  write (\<open>parseInt(e.target.value, 10) || 0\<close>), kept here as a map from size names. A
  name that is no own property is looked up in \<open>Object.prototype\<close>: for the names of
  its members the read gives the inherited member (a function, or for \<open>__proto__\<close> the
  prototype object itself), and for every other name it gives \<open>undefined\<close>.
\<close>

datatype js_value = Undefined | Number int | Inherited string

definition objectPrototypeMembers :: "string list" where
  "objectPrototypeMembers =
     [''constructor'', ''hasOwnProperty'', ''isPrototypeOf'', ''propertyIsEnumerable'',
      ''toLocaleString'', ''toString'', ''valueOf'', ''__proto__'',
      ''__defineGetter__'', ''__defineSetter__'', ''__lookupGetter__'', ''__lookupSetter__'']"

definition getProperty :: "(string \<rightharpoonup> int) \<Rightarrow> string \<Rightarrow> js_value" where
  "getProperty obj key =
     (case obj key of
        Some n \<Rightarrow> Number n
      | None \<Rightarrow> if key \<in> set objectPrototypeMembers then Inherited key else Undefined)"

text \<open>
  \<open>!quantity || quantity <= 0\<close>: \<open>undefined\<close> and 0 are falsy; an inherited member is
  an object, which is truthy and compares as \<open>NaN\<close>, so that \<open>quantity <= 0\<close> is false.
\<close>

definition quantityRejected :: "js_value \<Rightarrow> bool" where
  "quantityRejected quantity =
     (case quantity of
        Undefined \<Rightarrow> True
      | Number q \<Rightarrow> q = 0 \<or> q \<le> 0
      | Inherited k \<Rightarrow> False)"

section \<open>Data supplied by the storefront API\<close>

text \<open>
  The fields of the \<open>ProductVariant\<close> fragment that the form reads. A field is an
  \<^typ>\<open>'a option\<close> where the form guards it (\<open>?.\<close>, a test against \<open>null\<close>):
  \<open>product_handle\<close> stands for \<open>variant.product?.handle\<close> and \<open>price_amount\<close> for
  \<open>variant.price?.amount\<close>. The id of a variant (\<open>variant_id\<close>), its
  \<open>availableForSale\<close> flag, the name of an option value and the handle of a product are
  never null in the API's schema. The elements of \<open>adjacentVariants\<close> and of
  \<open>selectedOptions\<close> are objects: the size selector reads \<open>v.id\<close> and \<open>opt.name\<close> of
  each of them without a guard.
\<close>

record selected_option =
  so_name :: "string option"
  so_value :: "string option"

record variant =
  variant_id :: string
  availableForSale :: bool
  quantityAvailable :: "int option"
  price_amount :: "string option"
  product_handle :: "string option"
  selectedOptions :: "selected_option list option"

text \<open>An option value of \<open>MappedProductOptions\<close>, and the option holding them.\<close>

record option_value =
  name :: string
  firstSelectableVariant :: "variant option"
  available :: bool
  exists :: bool

record mapped_option =
  option_name :: string
  optionValues :: "option_value list"

text \<open>The selected colour product: its handle and its adjacent variants.\<close>

record color_product =
  handle :: string
  adjacentVariants :: "variant list option"

text \<open>
  A cart line. \<open>merchandiseId\<close> is \<open>variant?.id\<close>, undefined (\<open>None\<close>) without a
  variant, and \<open>quantity\<close> is what \<open>sizeQuantities[value.name]\<close> reads.
\<close>

record cart_line =
  merchandiseId :: "string option"
  quantity :: js_value
  selectedVariant :: "variant option"

section \<open>ProductForm: the cart lines\<close>

text \<open>\<open>opt?.name?.toLowerCase() === 'size'\<close>\<close>

definition isSizeOption :: "selected_option \<Rightarrow> bool" where
  "isSizeOption opt = (map_option toLowerCase (so_name opt) = Some ''size'')"

text \<open>
  \<open>findVariantForSize\<close> of \<open>ProductForm\<close>: the first adjacent variant of the
  selected colour product whose Size value, trimmed, is the trimmed size name. The
  variant's product handle is not looked at.
\<close>

definition findVariantForSize :: "color_product option \<Rightarrow> string \<Rightarrow> variant option" where
  "findVariantForSize selectedColorProduct sizeName =
     (case selectedColorProduct of
        None \<Rightarrow> None
      | Some p \<Rightarrow>
          (case adjacentVariants p of
             None \<Rightarrow> None
           | Some vs \<Rightarrow>
               List.find
                 (\<lambda>v. case selectedOptions v of
                        None \<Rightarrow> False
                      | Some opts \<Rightarrow>
                          Option.bind (List.find isSizeOption opts)
                            (\<lambda>sizeOption. map_option trim (so_value sizeOption))
                          = Some (trim sizeName))
                 vs))"

text \<open>
  \<open>effectiveSizeOption?.optionValues.find((v) => v.name === value.name)?.firstSelectableVariant\<close>
\<close>

definition colorSizeVariant :: "mapped_option option \<Rightarrow> option_value \<Rightarrow> variant option" where
  "colorSizeVariant effectiveSizeOption val =
     (case effectiveSizeOption of
        None \<Rightarrow> None
      | Some eso \<Rightarrow>
          (case List.find (\<lambda>v. name v = name val) (optionValues eso) of
             None \<Rightarrow> None
           | Some colorSizeValue \<Rightarrow> firstSelectableVariant colorSizeValue))"

text \<open>
  The variant both callbacks of \<open>cartLines\<close> compute for a size: the adjacent variant
  found by size, else the first selectable variant of the effective size option, else the
  first selectable variant of the base product's own option value.
\<close>

definition cartVariant ::
  "color_product option \<Rightarrow> mapped_option option \<Rightarrow> option_value \<Rightarrow> variant option" where
  "cartVariant selectedColorProduct effectiveSizeOption val =
     (case findVariantForSize selectedColorProduct (name val) of
        Some v \<Rightarrow> Some v
      | None \<Rightarrow>
          (case colorSizeVariant effectiveSizeOption val of
             Some v \<Rightarrow> Some v
           | None \<Rightarrow> firstSelectableVariant val))"

text \<open>A string or an undefined value is truthy when it is a non-empty string.\<close>

definition truthy :: "string option \<Rightarrow> bool" where
  "truthy s = (case s of None \<Rightarrow> False | Some t \<Rightarrow> t \<noteq> [])"

text \<open>
  The first \<open>filter\<close> callback: a quantity that passes the guard
  \<open>!quantity || quantity <= 0\<close>, and a variant with an id that is available for sale.
  The first argument of the map is the table of own properties of \<open>sizeQuantities\<close>; a
  size that was never edited has no entry in it.
\<close>

definition cartFilter ::
  "color_product option \<Rightarrow> mapped_option option \<Rightarrow> (string \<rightharpoonup> int) \<Rightarrow> option_value \<Rightarrow> bool" where
  "cartFilter selectedColorProduct effectiveSizeOption sizeQuantities val =
     (if quantityRejected (getProperty sizeQuantities (name val)) then False
      else
        (case cartVariant selectedColorProduct effectiveSizeOption val of
           None \<Rightarrow> False
         | Some v \<Rightarrow> truthy (Some (variant_id v)) \<and> availableForSale v))"

text \<open>The \<open>map\<close> callback: the line of a size.\<close>

definition cartLine ::
  "color_product option \<Rightarrow> mapped_option option \<Rightarrow> (string \<rightharpoonup> int) \<Rightarrow> option_value \<Rightarrow> cart_line" where
  "cartLine selectedColorProduct effectiveSizeOption sizeQuantities val =
     (let v = cartVariant selectedColorProduct effectiveSizeOption val in
      \<lparr>merchandiseId = map_option variant_id v,
       quantity = getProperty sizeQuantities (name val),
       selectedVariant = v\<rparr>)"

definition cartLines ::
  "mapped_option \<Rightarrow> mapped_option option \<Rightarrow> (string \<rightharpoonup> int) \<Rightarrow> color_product option
     \<Rightarrow> cart_line list" where
  "cartLines sizeOption effectiveSizeOption sizeQuantities selectedColorProduct =
     filter (\<lambda>line. truthy (merchandiseId line))
       (map (cartLine selectedColorProduct effectiveSizeOption sizeQuantities)
          (filter (cartFilter selectedColorProduct effectiveSizeOption sizeQuantities)
             (optionValues sizeOption)))"

section \<open>SizeSelectorWithQuantities: one row per size\<close>

text \<open>
  \<open>findVariantForSize\<close> of \<open>SizeSelectorWithQuantities\<close>: as the one of
  \<open>ProductForm\<close>, but a variant whose product handle is not the handle of the selected
  colour product is passed over. The console output is not modelled.
\<close>

definition findVariantForSize_strict :: "color_product option \<Rightarrow> string \<Rightarrow> variant option" where
  "findVariantForSize_strict selectedColorProduct sizeName =
     (case selectedColorProduct of
        None \<Rightarrow> None
      | Some p \<Rightarrow>
          (case adjacentVariants p of
             None \<Rightarrow> None
           | Some vs \<Rightarrow>
               List.find
                 (\<lambda>v. case selectedOptions v of
                        None \<Rightarrow> False
                      | Some opts \<Rightarrow>
                          if product_handle v = Some (handle p) then
                            (case List.find isSizeOption opts of
                               None \<Rightarrow> False
                             | Some sizeOption \<Rightarrow>
                                 map_option trim (so_value sizeOption) = Some (trim sizeName))
                          else False)
                 vs))"

text \<open>
  \<open>candidateVariant.selectedOptions?.find(size)?.value?.trim()\<close>
\<close>

definition variantSizeValue :: "variant \<Rightarrow> string option" where
  "variantSizeValue v =
     Option.bind (Option.bind (selectedOptions v) (List.find isSizeOption))
       (\<lambda>variantSizeOption. map_option trim (so_value variantSizeOption))"

text \<open>
  The variant of a row. With a selected colour product, the first selectable variant of the
  effective size option is taken only when its handle is the colour product's and its Size
  value is the row's; the base product's first selectable variant is taken only when no
  colour product is selected.
\<close>

definition displayVariant ::
  "color_product option \<Rightarrow> mapped_option option \<Rightarrow> option_value \<Rightarrow> variant option" where
  "displayVariant selectedColorProduct effectiveSizeOption val =
     (case findVariantForSize_strict selectedColorProduct (name val) of
        Some v \<Rightarrow> Some v
      | None \<Rightarrow>
          (case selectedColorProduct of
             None \<Rightarrow> firstSelectableVariant val
           | Some p \<Rightarrow>
               (case colorSizeVariant effectiveSizeOption val of
                  None \<Rightarrow> None
                | Some candidateVariant \<Rightarrow>
                    if product_handle candidateVariant = Some (handle p)
                       \<and> variantSizeValue candidateVariant = Some (trim (name val))
                    then Some candidateVariant
                    else None)))"

text \<open>\<open>variant?.price?.amount ? parseFloat(variant.price.amount) : 0\<close>\<close>

definition sizePrice :: "variant option \<Rightarrow> js_number" where
  "sizePrice v =
     (case Option.bind v price_amount of
        None \<Rightarrow> Num 0
      | Some a \<Rightarrow> if a = [] then Num 0 else parseFloat a)"

definition sizeAvailable :: "variant option \<Rightarrow> color_product option \<Rightarrow> option_value \<Rightarrow> bool" where
  "sizeAvailable v selectedColorProduct val =
     (case v of
        Some variant \<Rightarrow>
          (case selectedColorProduct of
             Some p \<Rightarrow>
               if product_handle variant = Some (handle p) then availableForSale variant
               else False
           | None \<Rightarrow> availableForSale variant)
      | None \<Rightarrow>
          (case selectedColorProduct of
             None \<Rightarrow> available val \<and> exists val
           | Some p \<Rightarrow> False))"

definition stockQuantity :: "variant option \<Rightarrow> bool \<Rightarrow> int" where
  "stockQuantity v avail =
     (case Option.bind v quantityAvailable of
        Some n \<Rightarrow> n
      | None \<Rightarrow> if avail then 999 else 0)"

record size_row =
  row_size :: string
  row_quantity :: js_value
  row_price :: js_number
  row_available :: bool
  row_stock :: int

definition sizeRow ::
  "color_product option \<Rightarrow> mapped_option option \<Rightarrow> (string \<rightharpoonup> int) \<Rightarrow> option_value \<Rightarrow> size_row" where
  "sizeRow selectedColorProduct effectiveSizeOption sizeQuantities val =
     (let v = displayVariant selectedColorProduct effectiveSizeOption val;
          avail = sizeAvailable v selectedColorProduct val
      in \<lparr>row_size = name val,
          row_quantity =
            (case getProperty sizeQuantities (name val) of
               Undefined \<Rightarrow> Number 0
             | Number n \<Rightarrow> Number n
             | Inherited k \<Rightarrow> Inherited k),
          row_price = sizePrice v,
          row_available = avail,
          row_stock = stockQuantity v avail\<rparr>)"

section \<open>ProductForm: which form is rendered\<close>

text \<open>The properties handed to \<open>AddToCartButton\<close>.\<close>

record add_to_cart =
  disabled :: bool
  lines :: "cart_line list"

datatype product_form =
  SizeSelectorForm "size_row list" add_to_cart
| StandardForm add_to_cart

text \<open>
  \<open>getProductOptions\<close> belongs to the storefront library; it is a parameter here. The
  size option is the first option whose lower-cased name is \<open>size\<close>.
\<close>

definition findSizeOption :: "mapped_option list \<Rightarrow> mapped_option option" where
  "findSizeOption opts = List.find (\<lambda>opt. toLowerCase (option_name opt) = ''size'') opts"

definition effectiveSizeOptionOf ::
  "(color_product \<Rightarrow> mapped_option list) \<Rightarrow> color_product option \<Rightarrow> mapped_option option
     \<Rightarrow> mapped_option option" where
  "effectiveSizeOptionOf getProductOptions selectedColorProduct sizeOption =
     (case selectedColorProduct of
        Some p \<Rightarrow> findSizeOption (getProductOptions p)
      | None \<Rightarrow> sizeOption)"

definition standardForm :: "variant option \<Rightarrow> add_to_cart" where
  "standardForm sv =
     (case sv of
        None \<Rightarrow> \<lparr>disabled = True, lines = []\<rparr>
      | Some v \<Rightarrow>
          \<lparr>disabled = (\<not> availableForSale v),
           lines = [\<lparr>merchandiseId = Some (variant_id v), quantity = Number 1,
                     selectedVariant = Some v\<rparr>]\<rparr>)"

definition ProductForm ::
  "(color_product \<Rightarrow> mapped_option list) \<Rightarrow> mapped_option list \<Rightarrow> variant option
     \<Rightarrow> color_product option \<Rightarrow> (string \<rightharpoonup> int) \<Rightarrow> product_form" where
  "ProductForm getProductOptions productOptions sv selectedColorProduct sizeQuantities =
     (let sizeOption = findSizeOption productOptions;
          effectiveSizeOption =
            effectiveSizeOptionOf getProductOptions selectedColorProduct sizeOption
      in case sizeOption of
           None \<Rightarrow> StandardForm (standardForm sv)
         | Some so \<Rightarrow>
             if 1 < length (optionValues so) then
               (let cl = cartLines so effectiveSizeOption sizeQuantities selectedColorProduct
                in SizeSelectorForm
                     (map (sizeRow selectedColorProduct effectiveSizeOption sizeQuantities)
                        (optionValues so))
                     \<lparr>disabled = (length cl = 0), lines = cl\<rparr>)
             else StandardForm (standardForm sv))"

section \<open>The second copy of the form\<close>

text \<open>
  The repository holds a second copy of the component, whose size selector takes the first
  selectable variant of the effective size option, or else the base product's, with no
  check at all: \<open>colorSizeValue?.firstSelectableVariant || value.firstSelectableVariant\<close>.
\<close>

definition legacyVariant :: "mapped_option option \<Rightarrow> option_value \<Rightarrow> variant option" where
  "legacyVariant effectiveSizeOption val =
     (case colorSizeVariant effectiveSizeOption val of
        Some v \<Rightarrow> Some v
      | None \<Rightarrow> firstSelectableVariant val)"

section \<open>Example inputs\<close>

text \<open>
  A variant with one selected option, Size; available for sale, priced 24.00. An option
  value that exists and is available.
\<close>

definition exVariant :: "string \<Rightarrow> string \<Rightarrow> string \<Rightarrow> int option \<Rightarrow> variant" where
  "exVariant i h s n =
     \<lparr>variant_id = i, availableForSale = True, quantityAvailable = n,
      price_amount = Some ''24.00'', product_handle = Some h,
      selectedOptions = Some [\<lparr>so_name = Some ''Size'', so_value = Some s\<rparr>]\<rparr>"

definition exValue :: "string \<Rightarrow> variant option \<Rightarrow> option_value" where
  "exValue s v = \<lparr>name = s, firstSelectableVariant = v, available = True, exists = True\<rparr>"

text \<open>The red shirt comes in S and M; only S is among its adjacent variants.\<close>

definition redShirt :: color_product where
  "redShirt = \<lparr>handle = ''shirt-red'',
               adjacentVariants = Some [exVariant ''red-S'' ''shirt-red'' ''S'' None]\<rparr>"

definition redSizes :: mapped_option where
  "redSizes = \<lparr>option_name = ''Size'',
     optionValues = [exValue ''S'' (Some (exVariant ''red-S'' ''shirt-red'' ''S'' None)),
                     exValue ''M'' (Some (exVariant ''red-M'' ''shirt-red'' ''M'' None))]\<rparr>"

text \<open>The base product is the blue shirt, in S, M and L.\<close>

definition blueSizes :: mapped_option where
  "blueSizes = \<lparr>option_name = ''Size'',
     optionValues = [exValue ''S'' (Some (exVariant ''blue-S'' ''shirt-blue'' ''S'' None)),
                     exValue ''M'' (Some (exVariant ''blue-M'' ''shirt-blue'' ''M'' None)),
                     exValue ''L'' (Some (exVariant ''blue-L'' ''shirt-blue'' ''L'' None))]\<rparr>"

text \<open>A size option whose pre-resolved variant for M belongs to a third product.\<close>

definition staleSizes :: mapped_option where
  "staleSizes = \<lparr>option_name = ''Size'',
     optionValues = [exValue ''M'' (Some (exVariant ''green-M'' ''shirt-green'' ''M'' None))]\<rparr>"

text \<open>An option value with no pre-resolved variant.\<close>

definition bareValue :: option_value where
  "bareValue = \<lparr>name = ''M'', firstSelectableVariant = None, available = True, exists = True\<rparr>"

text \<open>Variants whose price amount is not a number, or is missing.\<close>

definition oddPriceSizes :: mapped_option where
  "oddPriceSizes = \<lparr>option_name = ''Size'',
     optionValues =
       [exValue ''S'' (Some ((exVariant ''red-S'' ''shirt-red'' ''S'' None)\<lparr>price_amount := Some ''abc''\<rparr>)),
        exValue ''M'' (Some ((exVariant ''red-M'' ''shirt-red'' ''M'' None)\<lparr>price_amount := None\<rparr>))]\<rparr>"

text \<open>Products without a size option, and with a size option of one value.\<close>

definition colorOnly :: "mapped_option list" where
  "colorOnly =
     [\<lparr>option_name = ''Color'', optionValues = [exValue ''Red'' None, exValue ''Blue'' None]\<rparr>]"

definition oneSize :: "mapped_option list" where
  "oneSize = [\<lparr>option_name = ''Size'', optionValues = [exValue ''OS'' None]\<rparr>]"


text \<open>Size S with three pieces in stock, size M with an unknown inventory.\<close>

definition bulkSizes :: mapped_option where
  "bulkSizes = \<lparr>option_name = ''Size'',
     optionValues = [exValue ''S'' (Some (exVariant ''red-S'' ''shirt-red'' ''S'' (Some 3))),
                     exValue ''M'' (Some (exVariant ''red-M'' ''shirt-red'' ''M'' None))]\<rparr>"

section \<open>Auxiliary facts\<close>

lemmas string_defs = toLowerCase_def toLowerChar_def trim_def isWhiteSpace_def
lemmas parse_defs = parseFloat_def strUnsignedDecimalLiteral_def exponentPart_def negate_def
  scale10_def digitsValue_def digitValue_def isDigit_def isWhiteSpace_def
lemmas resolve_defs = isSizeOption_def findVariantForSize_def findVariantForSize_strict_def
  colorSizeVariant_def cartVariant_def displayVariant_def variantSizeValue_def
lemmas cart_defs = cartLines_def cartLine_def cartFilter_def truthy_def
  getProperty_def quantityRejected_def objectPrototypeMembers_def
lemmas row_defs = sizeRow_def sizeAvailable_def stockQuantity_def sizePrice_def
lemmas example_defs = exVariant_def exValue_def redShirt_def redSizes_def blueSizes_def

subsection \<open>The cart lines\<close>


lemma cartFilter_iff:
  "cartFilter scp eso q val \<longleftrightarrow>
     \<not> quantityRejected (getProperty q (name val))
     \<and> (\<exists>v. cartVariant scp eso val = Some v \<and> variant_id v \<noteq> [] \<and> availableForSale v)"
  by (auto simp: cartFilter_def truthy_def split: option.splits)


text \<open>The last \<open>filter\<close> of \<open>cartLines\<close> removes nothing: the first one has seen the id.\<close>

lemma cartLines_eq:
  "cartLines so eso q scp =
     map (cartLine scp eso q) (filter (cartFilter scp eso q) (optionValues so))"
proof -
  have "truthy (merchandiseId (cartLine scp eso q val))" if "cartFilter scp eso q val" for val
    using that by (auto simp: cartFilter_iff cartLine_def truthy_def)
  then show ?thesis
    unfolding cartLines_def by (simp add: filter_id_conv)
qed

lemma cartLines_member:
  "line \<in> set (cartLines so eso q scp) \<longleftrightarrow>
     (\<exists>val \<in> set (optionValues so). cartFilter scp eso q val \<and> line = cartLine scp eso q val)"
  by (auto simp: cartLines_eq)

lemma cartLines_has_line:
  assumes "val \<in> set (optionValues so)" "q (name val) = Some n" "0 < n"
    and "cartVariant scp eso val = Some v" "variant_id v \<noteq> []" "availableForSale v"
  shows "\<lparr>merchandiseId = Some (variant_id v), quantity = Number n, selectedVariant = Some v\<rparr>
           \<in> set (cartLines so eso q scp)"
proof -
  from assms have "cartFilter scp eso q val"
    by (auto simp: cartFilter_iff quantityRejected_def getProperty_def)
  moreover from assms have "cartLine scp eso q val =
      \<lparr>merchandiseId = Some (variant_id v), quantity = Number n, selectedVariant = Some v\<rparr>"
    by (simp add: cartLine_def getProperty_def)
  ultimately show ?thesis using assms(1) by (auto simp: cartLines_member)
qed




lemma cartLines_source:
  "\<forall>line \<in> set (cartLines so eso q scp).
     \<exists>val \<in> set (optionValues so).
       quantity line = getProperty q (name val) \<and> selectedVariant line = cartVariant scp eso val"
proof
  fix line
  assume "line \<in> set (cartLines so eso q scp)"
  then obtain val where "val \<in> set (optionValues so)" "line = cartLine scp eso q val"
    by (auto simp: cartLines_member)
  then show "\<exists>val \<in> set (optionValues so).
      quantity line = getProperty q (name val) \<and> selectedVariant line = cartVariant scp eso val"
    by (intro bexI [of _ val]) (simp_all add: cartLine_def Let_def)
qed

subsection \<open>The strict resolution of the size selector\<close>

lemma findVariantForSize_strict_Some:
  assumes "findVariantForSize_strict (Some p) s = Some v"
  shows "product_handle v = Some (handle p) \<and> variantSizeValue v = Some (trim s)
         \<and> v \<in> set (case adjacentVariants p of None \<Rightarrow> [] | Some vs \<Rightarrow> vs)"
proof (cases "adjacentVariants p")
  case None
  with assms show ?thesis by (simp add: findVariantForSize_strict_def)
next
  case (Some vs)
  with assms obtain i where i: "i < length vs" "v = vs ! i"
    and m: "(case selectedOptions v of
               None \<Rightarrow> False
             | Some opts \<Rightarrow>
                 if product_handle v = Some (handle p) then
                   (case List.find isSizeOption opts of
                      None \<Rightarrow> False
                    | Some sizeOption \<Rightarrow>
                        map_option trim (so_value sizeOption) = Some (trim s))
                 else False)"
    by (auto simp: findVariantForSize_strict_def find_Some_iff)
  from m have "product_handle v = Some (handle p)" "variantSizeValue v = Some (trim s)"
    by (auto simp: variantSizeValue_def split: option.splits if_splits)
  with i Some show ?thesis by simp
qed

lemma displayVariant_Some_bundle:
  assumes "displayVariant (Some p) eso val = Some v"
  shows "product_handle v = Some (handle p) \<and> variantSizeValue v = Some (trim (name val))"
proof (cases "findVariantForSize_strict (Some p) (name val)")
  case None
  with assms show ?thesis
    by (auto simp: displayVariant_def split: option.splits if_splits)
next
  case (Some w)
  with assms have "w = v" by (simp add: displayVariant_def)
  with Some findVariantForSize_strict_Some [of p "name val" v] show ?thesis by simp
qed

subsection \<open>The examples, evaluated\<close>

lemma bulk_lines:
  "cartLines bulkSizes None [''S'' \<mapsto> 1000, ''M'' \<mapsto> 1000] None
     = [\<lparr>merchandiseId = Some ''red-S'', quantity = Number 1000,
         selectedVariant = Some (exVariant ''red-S'' ''shirt-red'' ''S'' (Some 3))\<rparr>,
        \<lparr>merchandiseId = Some ''red-M'', quantity = Number 1000,
         selectedVariant = Some (exVariant ''red-M'' ''shirt-red'' ''M'' None)\<rparr>]"
  by (simp add: resolve_defs cart_defs example_defs bulkSizes_def)

lemma bulk_rows:
  "map (\<lambda>val. row_stock (sizeRow None None [''S'' \<mapsto> 1000, ''M'' \<mapsto> 1000] val))
     (optionValues bulkSizes) = [3, 999]"
  by (simp add: resolve_defs row_defs example_defs bulkSizes_def)

section \<open>The claims\<close>

subsection \<open>C1: a size that no adjacent variant of the colour product carries\<close>

text \<open>
  Claim C1 says that for a size carried by no adjacent variant of the selected colour
  product, resolution gives null, in the size selector and in the cart lines alike. At the
  red shirt this fails twice. Its adjacent variants hold size S only, yet the size selector
  resolves M to the red M, the pre-resolved variant of the colour product's own size
  option; and the cart lines hold the blue L of the base product for size L, which the red
  shirt does not have.
\<close>

theorem unlisted_size_resolved:
  "adjacentVariants redShirt = Some [exVariant ''red-S'' ''shirt-red'' ''S'' None]
   \<and> displayVariant (Some redShirt) (Some redSizes)
       (exValue ''M'' (Some (exVariant ''blue-M'' ''shirt-blue'' ''M'' None)))
     = Some (exVariant ''red-M'' ''shirt-red'' ''M'' None)
   \<and> cartLines blueSizes (Some redSizes) [''M'' \<mapsto> 1, ''L'' \<mapsto> 1] (Some redShirt)
     = [\<lparr>merchandiseId = Some ''red-M'', quantity = Number 1,
         selectedVariant = Some (exVariant ''red-M'' ''shirt-red'' ''M'' None)\<rparr>,
        \<lparr>merchandiseId = Some ''blue-L'', quantity = Number 1,
         selectedVariant = Some (exVariant ''blue-L'' ''shirt-blue'' ''L'' None)\<rparr>]"
  by (simp add: string_defs resolve_defs cart_defs example_defs)

text \<open>
  Claim C1 as amended, for the size selector: when no adjacent variant of the selected
  colour product carries the size, the row's variant is either null, and then the row is
  unavailable with stock 0, or it is the pre-resolved variant of the colour product's size
  option for that label, whose product handle is the colour product's and whose trimmed
  Size value is the trimmed label. The base product's variant is never taken for it.
\<close>

theorem displayVariant_unlisted_size:
  assumes "\<forall>v \<in> set (case adjacentVariants p of None \<Rightarrow> [] | Some vs \<Rightarrow> vs).
             variantSizeValue v \<noteq> Some (trim (name val))"
  shows "(displayVariant (Some p) eso val = None
            \<and> row_available (sizeRow (Some p) eso q val) = False
            \<and> row_stock (sizeRow (Some p) eso q val) = 0)
         \<or> (\<exists>c. displayVariant (Some p) eso val = Some c
                \<and> colorSizeVariant eso val = Some c
                \<and> product_handle c = Some (handle p)
                \<and> variantSizeValue c = Some (trim (name val)))"
proof -
  have strict: "findVariantForSize_strict (Some p) (name val) = None"
  proof (cases "findVariantForSize_strict (Some p) (name val)")
    case (Some w)
    from findVariantForSize_strict_Some [OF Some] assms show ?thesis by blast
  qed simp
  show ?thesis
  proof (cases "displayVariant (Some p) eso val")
    case None
    then show ?thesis
      by (simp add: sizeRow_def sizeAvailable_def stockQuantity_def)
  next
    case (Some c)
    with strict have "colorSizeVariant eso val = Some c"
      by (auto simp: displayVariant_def split: option.splits if_splits)
    with Some displayVariant_Some_bundle [OF Some] show ?thesis by simp
  qed
qed

text \<open>
  At the red shirt: size L, which the base product has and the red shirt has not, gets no
  variant, is unavailable and shows stock 0; size M gets the red M.
\<close>

theorem displayVariant_unlisted_size_witness:
  "displayVariant (Some redShirt) (Some redSizes)
       (exValue ''L'' (Some (exVariant ''blue-L'' ''shirt-blue'' ''L'' None))) = None
   \<and> row_available (sizeRow (Some redShirt) (Some redSizes) [''L'' \<mapsto> 1]
        (exValue ''L'' (Some (exVariant ''blue-L'' ''shirt-blue'' ''L'' None)))) = False
   \<and> row_stock (sizeRow (Some redShirt) (Some redSizes) [''L'' \<mapsto> 1]
        (exValue ''L'' (Some (exVariant ''blue-L'' ''shirt-blue'' ''L'' None)))) = 0
   \<and> product_handle (exVariant ''red-M'' ''shirt-red'' ''M'' None) = Some (handle redShirt)
   \<and> colorSizeVariant (Some redSizes)
        (exValue ''M'' (Some (exVariant ''blue-M'' ''shirt-blue'' ''M'' None)))
      = Some (exVariant ''red-M'' ''shirt-red'' ''M'' None)"
proof -
  let ?l = "exValue ''L'' (Some (exVariant ''blue-L'' ''shirt-blue'' ''L'' None))"
  let ?m = "exValue ''M'' (Some (exVariant ''blue-M'' ''shirt-blue'' ''M'' None))"
  have hl: "\<forall>v \<in> set (case adjacentVariants redShirt of None \<Rightarrow> [] | Some vs \<Rightarrow> vs).
             variantSizeValue v \<noteq> Some (trim (name ?l))"
    by (simp add: string_defs resolve_defs example_defs)
  have hm: "\<forall>v \<in> set (case adjacentVariants redShirt of None \<Rightarrow> [] | Some vs \<Rightarrow> vs).
             variantSizeValue v \<noteq> Some (trim (name ?m))"
    by (simp add: string_defs resolve_defs example_defs)
  have nl: "displayVariant (Some redShirt) (Some redSizes) ?l = None"
    by (simp add: string_defs resolve_defs example_defs)
  have sm: "displayVariant (Some redShirt) (Some redSizes) ?m
            = Some (exVariant ''red-M'' ''shirt-red'' ''M'' None)"
    by (simp add: string_defs resolve_defs example_defs)
  from displayVariant_unlisted_size [OF hl, of "Some redSizes" "[''L'' \<mapsto> 1]"] nl
  have "row_available (sizeRow (Some redShirt) (Some redSizes) [''L'' \<mapsto> 1] ?l) = False
        \<and> row_stock (sizeRow (Some redShirt) (Some redSizes) [''L'' \<mapsto> 1] ?l) = 0"
    by simp
  moreover from displayVariant_unlisted_size [OF hm, of "Some redSizes" Map.empty] sm
  have "product_handle (exVariant ''red-M'' ''shirt-red'' ''M'' None) = Some (handle redShirt)
        \<and> colorSizeVariant (Some redSizes) ?m = Some (exVariant ''red-M'' ''shirt-red'' ''M'' None)"
    by simp
  ultimately show ?thesis using nl by simp
qed

subsection \<open>C2: every cart line has a positive quantity and an id\<close>




subsection \<open>C3: availability and the product handle\<close>

text \<open>
  Claim C3: with a variant resolved and a colour product selected, the row is unavailable
  when the variant's product handle is not the colour product's handle, whatever the
  variant's \<open>availableForSale\<close>; when the handles agree, the availability is the variant's
  \<open>availableForSale\<close>.
\<close>

theorem sizeAvailable_handle:
  "(product_handle v \<noteq> Some (handle p) \<longrightarrow> sizeAvailable (Some v) (Some p) val = False)
   \<and> (product_handle v = Some (handle p) \<longrightarrow>
        sizeAvailable (Some v) (Some p) val = availableForSale v)"
  by (simp add: sizeAvailable_def)

theorem sizeAvailable_handle_witness:
  "availableForSale (exVariant ''blue-L'' ''shirt-blue'' ''L'' None)
   \<and> sizeAvailable (Some (exVariant ''blue-L'' ''shirt-blue'' ''L'' None)) (Some redShirt)
        (exValue ''L'' None) = False
   \<and> sizeAvailable (Some (exVariant ''red-S'' ''shirt-red'' ''S'' None)) (Some redShirt)
        (exValue ''S'' None) = True"
  using sizeAvailable_handle [of "exVariant ''blue-L'' ''shirt-blue'' ''L'' None" redShirt "exValue ''L'' None"]
    sizeAvailable_handle [of "exVariant ''red-S'' ''shirt-red'' ''S'' None" redShirt "exValue ''S'' None"]
  by (simp add: example_defs)

subsection \<open>C4: a pre-resolved variant of another product\<close>

text \<open>
  Claim C4 says that, with a colour product selected and no adjacent variant found, the
  pre-resolved variant of the colour product's size option is taken only when its product
  handle is the colour product's and its trimmed Size value is the trimmed label, in the
  size selector and in the cart lines. The size selector does so. The cart lines do not:
  with the red shirt selected and a size option whose variant for M belongs to the green
  shirt, the size selector resolves M to null, and the cart holds a line for the green M.
\<close>

theorem cartLines_foreign_candidate:
  "displayVariant (Some redShirt) (Some staleSizes)
       (exValue ''M'' (Some (exVariant ''blue-M'' ''shirt-blue'' ''M'' None))) = None
   \<and> cartLines blueSizes (Some staleSizes) [''M'' \<mapsto> 2] (Some redShirt)
     = [\<lparr>merchandiseId = Some ''green-M'', quantity = Number 2,
         selectedVariant = Some (exVariant ''green-M'' ''shirt-green'' ''M'' None)\<rparr>]"
  by (simp add: string_defs resolve_defs cart_defs example_defs staleSizes_def)

subsection \<open>C5: the stock shown\<close>

text \<open>
  Claim C5 says that the stock is 0 whenever no variant is resolved. With no colour product
  selected and an option value that has no pre-resolved variant but is available and
  exists, no variant is resolved and the stock shown is 999.
\<close>

theorem row_stock_no_variant:
  "displayVariant None None bareValue = None
   \<and> row_available (sizeRow None None Map.empty bareValue) = True
   \<and> row_stock (sizeRow None None Map.empty bareValue) = 999"
  by (simp add: resolve_defs row_defs bareValue_def)

text \<open>
  Claim C5 as amended: a resolved variant with a known inventory count shows that count;
  a resolved variant with an unknown count shows 999 when the row is available and 0 when
  it is not; with no variant resolved, the stock is 0 when a colour product is selected,
  and otherwise 999 when the base product's option value is available and exists, and 0
  when it is not.
\<close>

theorem row_stock_cases:
  "(displayVariant scp eso val = Some x \<and> quantityAvailable x = Some n \<longrightarrow>
      row_stock (sizeRow scp eso q val) = n)
   \<and> (displayVariant scp eso val = Some x \<and> quantityAvailable x = None \<longrightarrow>
      row_stock (sizeRow scp eso q val) = (if row_available (sizeRow scp eso q val) then 999 else 0))
   \<and> (displayVariant scp eso val = None \<and> scp = Some p \<longrightarrow>
      row_stock (sizeRow scp eso q val) = 0)
   \<and> (displayVariant scp eso val = None \<and> scp = None \<longrightarrow>
      row_stock (sizeRow scp eso q val) = (if available val \<and> exists val then 999 else 0))"
  by (auto simp: sizeRow_def stockQuantity_def sizeAvailable_def Let_def)

text \<open>
  Size S of the bulk example has three pieces; size M has an unknown inventory and is
  available; size L is not to be had in red.
\<close>

theorem row_stock_cases_witness:
  "row_stock (sizeRow None None Map.empty
       (exValue ''S'' (Some (exVariant ''red-S'' ''shirt-red'' ''S'' (Some 3))))) = 3
   \<and> row_stock (sizeRow None None Map.empty
       (exValue ''M'' (Some (exVariant ''red-M'' ''shirt-red'' ''M'' None)))) = 999
   \<and> row_stock (sizeRow (Some redShirt) (Some redSizes) Map.empty
       (exValue ''L'' (Some (exVariant ''blue-L'' ''shirt-blue'' ''L'' None)))) = 0
   \<and> row_stock (sizeRow None None Map.empty bareValue) = 999"
proof -
  let ?s = "exVariant ''red-S'' ''shirt-red'' ''S'' (Some 3)"
  let ?m = "exVariant ''red-M'' ''shirt-red'' ''M'' None"
  let ?l = "exValue ''L'' (Some (exVariant ''blue-L'' ''shirt-blue'' ''L'' None))"
  have s: "displayVariant None None (exValue ''S'' (Some ?s)) = Some ?s
           \<and> quantityAvailable ?s = Some 3"
    by (simp add: resolve_defs example_defs)
  have m: "displayVariant None None (exValue ''M'' (Some ?m)) = Some ?m
           \<and> quantityAvailable ?m = None"
    by (simp add: resolve_defs example_defs)
  have ma: "row_available (sizeRow None None Map.empty (exValue ''M'' (Some ?m)))"
    by (simp add: resolve_defs example_defs sizeRow_def sizeAvailable_def Let_def)
  have l: "displayVariant (Some redShirt) (Some redSizes) ?l = None"
    by (simp add: string_defs resolve_defs example_defs)
  have b: "displayVariant None None bareValue = None \<and> available bareValue \<and> exists bareValue"
    by (simp add: resolve_defs bareValue_def)
  from row_stock_cases [of None None "exValue ''S'' (Some ?s)" ?s 3 Map.empty] s
  have "row_stock (sizeRow None None Map.empty (exValue ''S'' (Some ?s))) = 3"
    by blast
  moreover from row_stock_cases [of None None "exValue ''M'' (Some ?m)" ?m _ Map.empty] m ma
  have "row_stock (sizeRow None None Map.empty (exValue ''M'' (Some ?m))) = 999"
    by simp
  moreover from row_stock_cases [of "Some redShirt" "Some redSizes" ?l _ _ Map.empty redShirt] l
  have "row_stock (sizeRow (Some redShirt) (Some redSizes) Map.empty ?l) = 0"
    by blast
  moreover from row_stock_cases [of None None bareValue _ _ Map.empty] b
  have "row_stock (sizeRow None None Map.empty bareValue) = 999"
    by simp
  ultimately show ?thesis by blast
qed

subsection \<open>C6: the two resolutions compared\<close>

text \<open>
  Claim C6 says that the resolution of the cart lines and the strict resolution of the
  size selector give the same variant for every input. They do not: with the red shirt
  selected, size L (which the red shirt does not have) resolves to the base product's
  blue L in the cart lines and to null in the size selector. The second copy of the form
  resolves it as the cart lines do.
\<close>

theorem cartVariant_differs:
  "cartVariant (Some redShirt) (Some redSizes)
       (exValue ''L'' (Some (exVariant ''blue-L'' ''shirt-blue'' ''L'' None)))
     = Some (exVariant ''blue-L'' ''shirt-blue'' ''L'' None)
   \<and> displayVariant (Some redShirt) (Some redSizes)
       (exValue ''L'' (Some (exVariant ''blue-L'' ''shirt-blue'' ''L'' None))) = None
   \<and> legacyVariant (Some redSizes)
       (exValue ''L'' (Some (exVariant ''blue-L'' ''shirt-blue'' ''L'' None)))
     = Some (exVariant ''blue-L'' ''shirt-blue'' ''L'' None)"
  by (simp add: string_defs resolve_defs example_defs legacyVariant_def)

subsection \<open>C7: the price shown\<close>

text \<open>
  Claim C7 says that the price shown is 0 when the amount is malformed, and never
  negative. An amount \<open>abc\<close> gives \<open>NaN\<close>, and an amount \<open>-5.00\<close> gives minus five.
\<close>

theorem sizePrice_malformed:
  "sizePrice (Some ((exVariant ''red-S'' ''shirt-red'' ''S'' None)\<lparr>price_amount := Some ''abc''\<rparr>)) = NaN
   \<and> sizePrice (Some ((exVariant ''red-S'' ''shirt-red'' ''S'' None)\<lparr>price_amount := Some ''-5.00''\<rparr>))
       = Num (- 5)"
  by (simp add: sizePrice_def exVariant_def parse_defs)

text \<open>
  Claim C7 as amended: the price shown is 0 when no variant is resolved and when the
  variant's price amount is missing or the empty string; in every other case it is what
  \<open>parseFloat\<close> reads from the amount, sign included, which is \<open>NaN\<close> for a string
  that does not start with a number. The price plays no part in the cart lines: a size with
  a positive quantity whose variant has an id and is available for sale gets its line.
\<close>

theorem sizePrice_cases:
  "sizePrice None = Num 0
   \<and> (price_amount v = None \<or> price_amount v = Some [] \<longrightarrow> sizePrice (Some v) = Num 0)
   \<and> (price_amount v = Some a \<and> a \<noteq> [] \<longrightarrow> sizePrice (Some v) = parseFloat a)
   \<and> (val \<in> set (optionValues so) \<and> q (name val) = Some n \<and> 0 < n
        \<and> cartVariant scp eso val = Some w \<and> variant_id w \<noteq> [] \<and> availableForSale w
        \<longrightarrow> \<lparr>merchandiseId = Some (variant_id w), quantity = Number n, selectedVariant = Some w\<rparr>
              \<in> set (cartLines so eso q scp))"
  using cartLines_has_line [of val so q n scp eso w]
  by (auto simp: sizePrice_def)

theorem sizePrice_cases_witness:
  "sizePrice (Some ((exVariant ''red-M'' ''shirt-red'' ''M'' None)\<lparr>price_amount := None\<rparr>)) = Num 0
   \<and> sizePrice (Some ((exVariant ''red-S'' ''shirt-red'' ''S'' None)\<lparr>price_amount := Some ''abc''\<rparr>))
       = parseFloat ''abc''
   \<and> \<lparr>merchandiseId = Some ''red-S'', quantity = Number 3,
       selectedVariant = Some ((exVariant ''red-S'' ''shirt-red'' ''S'' None)\<lparr>price_amount := Some ''abc''\<rparr>)\<rparr>
       \<in> set (cartLines oddPriceSizes None [''S'' \<mapsto> 3] None)"
  using sizePrice_cases [of "(exVariant ''red-M'' ''shirt-red'' ''M'' None)\<lparr>price_amount := None\<rparr>" _
      "exValue ''S'' (Some ((exVariant ''red-S'' ''shirt-red'' ''S'' None)\<lparr>price_amount := Some ''abc''\<rparr>))"
      oddPriceSizes "[''S'' \<mapsto> 3]" 3 None None
      "(exVariant ''red-S'' ''shirt-red'' ''S'' None)\<lparr>price_amount := Some ''abc''\<rparr>"]
    sizePrice_cases [of "(exVariant ''red-S'' ''shirt-red'' ''S'' None)\<lparr>price_amount := Some ''abc''\<rparr>" "''abc''"]
  by (simp add: resolve_defs example_defs oddPriceSizes_def)

subsection \<open>C8: the order of the cart lines\<close>




subsection \<open>C9: the form without a size selector\<close>

text \<open>
  Claim C9: when the product has no size option, or a size option with at most one value,
  the standard form is rendered. With a selected variant it submits exactly one line, with
  that variant's id and quantity 1; with none, the list of lines is empty and the button is
  disabled. (The button is disabled as well when the selected variant is not available for
  sale.)
\<close>

theorem ProductForm_standard:
  assumes "findSizeOption productOptions = None
           \<or> (\<exists>so. findSizeOption productOptions = Some so \<and> length (optionValues so) \<le> 1)"
  shows "\<exists>b. ProductForm g productOptions sv scp q = StandardForm b
           \<and> (case sv of
                 Some v \<Rightarrow>
                   lines b = [\<lparr>merchandiseId = Some (variant_id v), quantity = Number 1,
                               selectedVariant = Some v\<rparr>]
                   \<and> disabled b = (\<not> availableForSale v)
               | None \<Rightarrow> lines b = [] \<and> disabled b = True)"
  using assms
  by (auto simp: ProductForm_def standardForm_def Let_def split: option.splits)

theorem ProductForm_standard_witness:
  "(\<exists>b. ProductForm (\<lambda>p. []) colorOnly (Some (exVariant ''red-S'' ''shirt-red'' ''S'' None)) None Map.empty
          = StandardForm b
        \<and> lines b = [\<lparr>merchandiseId = Some ''red-S'', quantity = Number 1,
                       selectedVariant = Some (exVariant ''red-S'' ''shirt-red'' ''S'' None)\<rparr>]
        \<and> disabled b = False)
   \<and> (\<exists>b. ProductForm (\<lambda>p. []) oneSize None None Map.empty = StandardForm b
        \<and> lines b = [] \<and> disabled b = True)"
proof -
  have h1: "findSizeOption colorOnly = None
            \<or> (\<exists>so. findSizeOption colorOnly = Some so \<and> length (optionValues so) \<le> 1)"
    by (simp add: findSizeOption_def colorOnly_def string_defs)
  have h2: "findSizeOption oneSize = None
            \<or> (\<exists>so. findSizeOption oneSize = Some so \<and> length (optionValues so) \<le> 1)"
    by (simp add: findSizeOption_def oneSize_def string_defs)
  from ProductForm_standard [OF h1, of "\<lambda>p. []" "Some (exVariant ''red-S'' ''shirt-red'' ''S'' None)" None Map.empty]
    ProductForm_standard [OF h2, of "\<lambda>p. []" None None Map.empty]
  show ?thesis by (simp add: exVariant_def)
qed

subsection \<open>C10: the quantity of a line is the quantity asked for\<close>

text \<open>
  Claim C10: every cart line carries what the quantity object gives for its size, as it
  is, and the variant resolved for that size; the stock shown plays no part. So a line
  can ask for more than there is: in the bulk example both lines ask for 1000 pieces,
  where size S has an inventory of 3 and shows stock 3, and size M has an unknown inventory
  and shows the stock 999.
\<close>

theorem cartLines_raw_quantity:
  "(\<forall>line \<in> set (cartLines so eso q scp).
      \<exists>val \<in> set (optionValues so).
        quantity line = getProperty q (name val) \<and> selectedVariant line = cartVariant scp eso val)
   \<and> map quantity (cartLines bulkSizes None [''S'' \<mapsto> 1000, ''M'' \<mapsto> 1000] None)
       = [Number 1000, Number 1000]
   \<and> map (\<lambda>line. Option.bind (selectedVariant line) quantityAvailable)
        (cartLines bulkSizes None [''S'' \<mapsto> 1000, ''M'' \<mapsto> 1000] None) = [Some 3, None]
   \<and> map (\<lambda>val. row_stock (sizeRow None None [''S'' \<mapsto> 1000, ''M'' \<mapsto> 1000] val))
        (optionValues bulkSizes) = [3, 999]
   \<and> list_all2 (\<lambda>line stock. \<exists>k. quantity line = Number k \<and> stock < k)
        (cartLines bulkSizes None [''S'' \<mapsto> 1000, ''M'' \<mapsto> 1000] None)
        (map (\<lambda>val. row_stock (sizeRow None None [''S'' \<mapsto> 1000, ''M'' \<mapsto> 1000] val))
           (optionValues bulkSizes))"
proof -
  have "map quantity (cartLines bulkSizes None [''S'' \<mapsto> 1000, ''M'' \<mapsto> 1000] None)
       = [Number 1000, Number 1000]"
    by (simp add: bulk_lines)
  moreover have "map (\<lambda>line. Option.bind (selectedVariant line) quantityAvailable)
        (cartLines bulkSizes None [''S'' \<mapsto> 1000, ''M'' \<mapsto> 1000] None) = [Some 3, None]"
    by (simp add: bulk_lines exVariant_def)
  moreover have "list_all2 (\<lambda>line stock. \<exists>k. quantity line = Number k \<and> stock < k)
        (cartLines bulkSizes None [''S'' \<mapsto> 1000, ''M'' \<mapsto> 1000] None)
        (map (\<lambda>val. row_stock (sizeRow None None [''S'' \<mapsto> 1000, ''M'' \<mapsto> 1000] val))
           (optionValues bulkSizes))"
    unfolding bulk_rows by (simp add: bulk_lines)
  ultimately show ?thesis
    using cartLines_source [of so eso q scp] bulk_rows by blast
qed

theorem cartLines_raw_quantity_witness:
  "\<exists>val \<in> set (optionValues bulkSizes).
      quantity (hd (cartLines bulkSizes None [''S'' \<mapsto> 1000, ''M'' \<mapsto> 1000] None))
        = getProperty [''S'' \<mapsto> 1000, ''M'' \<mapsto> 1000] (name val)
      \<and> selectedVariant (hd (cartLines bulkSizes None [''S'' \<mapsto> 1000, ''M'' \<mapsto> 1000] None))
        = cartVariant None None val"
proof -
  let ?ls = "cartLines bulkSizes None [''S'' \<mapsto> 1000, ''M'' \<mapsto> 1000] None"
  have "hd ?ls \<in> set ?ls" by (simp add: bulk_lines)
  with cartLines_raw_quantity [of bulkSizes None "[''S'' \<mapsto> 1000, ''M'' \<mapsto> 1000]" None]
  show ?thesis by blast
qed

end
